theory Spec2Isabelle
  imports Complex_Main "HOL-Library.Word"
begin

section \<open>Errors\<close>

text \<open>
  Every failure of the sources is a call \<^verbatim>\<open>utility::LogError(fmt, args...)\<close>. An error
  value carries the formatted message of that call. The two constructors stand for the
  two groups of call sites: the dtype lookups (\<^verbatim>\<open>"Unsupported data type"\<close>) and the
  operand checks of \<^verbatim>\<open>MatmulCPU\<close>.
\<close>

datatype error = UnsupportedType string | ShapeError string

text \<open>
  Modelled from the spec: \<^verbatim>\<open>utility::LogError\<close> is declared in
  \<^verbatim>\<open>open3d/utility/Console.h\<close>, which is not among the sources. The spec describes it as
  a fatal-error reporter whose invocation terminates the current operation instead of
  returning control to the caller, and the doc comment of \<^verbatim>\<open>FromType\<close> in the sources
  says that an unsupported type results in an exception. So a call of \<^verbatim>\<open>LogError\<close> raises:
  it yields the error and never a unit value, and the statements that follow the call in the
  source are not executed.
\<close>

definition LogError :: "error \<Rightarrow> error + unit" where
  "LogError e = Inl e"

section \<open>Dtype.h: the dtype registry\<close>

text \<open>
  The primitive C++ types at which \<^verbatim>\<open>FromType<T>\<close> can be instantiated: the seven types
  with an explicit specialisation, and \<open>C_other name\<close> for a type that is none of these
  seven (an alias of one of the seven is that type, not another one).
\<close>

datatype CType =
    C_float | C_double | C_int32_t | C_int64_t | C_uint8_t | C_uint16_t | C_bool
  | C_other string

definition supported_types :: "CType list" where
  "supported_types = [C_float, C_double, C_int32_t, C_int64_t, C_uint8_t, C_uint16_t, C_bool]"

text \<open>
  The platform sizes that the \<^verbatim>\<open>static_assert\<close>s at the head of Dtype.h fix
  (\<^verbatim>\<open>sizeof(float) == 4\<close>, ...). No size is asserted for any other type.
\<close>

fun sizeof :: "CType \<Rightarrow> int option" where
  "sizeof C_float = Some 4"
| "sizeof C_double = Some 8"
| "sizeof C_int32_t = Some 4"
| "sizeof C_int64_t = Some 8"
| "sizeof C_uint8_t = Some 1"
| "sizeof C_uint16_t = Some 2"
| "sizeof C_bool = Some 1"
| "sizeof (C_other T) = None"

text \<open>
  \<^verbatim>\<open>enum class Dtype\<close>. An object of the enum type can also hold a value of the underlying
  integer type that is none of the eight enumerators (through a cast); \<open>Unrecognized v\<close> is
  such an object, and it is what reaches the \<^verbatim>\<open>default:\<close> branches below.
\<close>

datatype Dtype =
    Undefined | Float32 | Float64 | Int32 | Int64 | UInt8 | UInt16 | Bool
  | Unrecognized int

text \<open>
  \<^verbatim>\<open>DtypeUtil::ByteSize\<close>: \<^verbatim>\<open>byte_size\<close> starts at 0, the switch assigns it, and the
  \<^verbatim>\<open>default:\<close> branch (taken by \<^verbatim>\<open>Undefined\<close> too, which has no case of its own) calls
  \<^verbatim>\<open>LogError\<close> before the final \<^verbatim>\<open>return byte_size\<close>.
\<close>

fun ByteSize :: "Dtype \<Rightarrow> error + int" where
  "ByteSize Float32 = Inr 4"
| "ByteSize Float64 = Inr 8"
| "ByteSize Int32 = Inr 4"
| "ByteSize Int64 = Inr 8"
| "ByteSize UInt8 = Inr 1"
| "ByteSize UInt16 = Inr 2"
| "ByteSize Bool = Inr 1"
| "ByteSize d =
     (case LogError (UnsupportedType ''Unsupported data type'') of
        Inl e \<Rightarrow> Inl e
      | Inr u \<Rightarrow> Inr 0)"

text \<open>
  \<^verbatim>\<open>DtypeUtil::FromType<T>\<close>: the seven specialisations, and the primary template, which
  calls \<^verbatim>\<open>LogError\<close> and then has \<^verbatim>\<open>return Dtype::Undefined\<close>.
\<close>

fun FromType :: "CType \<Rightarrow> error + Dtype" where
  "FromType C_float = Inr Float32"
| "FromType C_double = Inr Float64"
| "FromType C_int32_t = Inr Int32"
| "FromType C_int64_t = Inr Int64"
| "FromType C_uint8_t = Inr UInt8"
| "FromType C_uint16_t = Inr UInt16"
| "FromType C_bool = Inr Bool"
| "FromType (C_other T) =
     (case LogError (UnsupportedType ''Unsupported data type'') of
        Inl e \<Rightarrow> Inl e
      | Inr u \<Rightarrow> Inr Undefined)"

text \<open>
  \<^verbatim>\<open>DtypeUtil::ToString\<close>: \<^verbatim>\<open>str\<close> starts empty; the switch has a case for each of the
  eight enumerators, \<^verbatim>\<open>Undefined\<close> included, and a \<^verbatim>\<open>default:\<close> branch that calls
  \<^verbatim>\<open>LogError\<close>.
\<close>

fun ToString :: "Dtype \<Rightarrow> error + string" where
  "ToString Undefined = Inr ''Undefined''"
| "ToString Float32 = Inr ''Float32''"
| "ToString Float64 = Inr ''Float64''"
| "ToString Int32 = Inr ''Int32''"
| "ToString Int64 = Inr ''Int64''"
| "ToString UInt8 = Inr ''UInt8''"
| "ToString UInt16 = Inr ''UInt16''"
| "ToString Bool = Inr ''Bool''"
| "ToString (Unrecognized v) =
     (case LogError (UnsupportedType ''Unsupported data type'') of
        Inl e \<Rightarrow> Inl e
      | Inr u \<Rightarrow> Inr '''')"

subsection \<open>ObjDtype\<close>

text \<open>
  \<^verbatim>\<open>class ObjDtype\<close> with its nested \<^verbatim>\<open>enum class DtypeCode\<close>. Dtype.cpp constructs the
  eight constants from a code and a byte size; it passes no name, so the record has the two
  fields that the sources give a value.
\<close>

datatype DtypeCode =
  Code_Undefined | Code_Bool | Code_Int | Code_UInt | Code_Float | Code_Object

record ObjDtype =
  dtype_code :: DtypeCode
  obj_byte_size :: int

definition ObjDtype_Undefined :: ObjDtype where
  "ObjDtype_Undefined = \<lparr>dtype_code = Code_Undefined, obj_byte_size = 1\<rparr>"

definition ObjDtype_Float32 :: ObjDtype where
  "ObjDtype_Float32 = \<lparr>dtype_code = Code_Float, obj_byte_size = 4\<rparr>"

definition ObjDtype_Float64 :: ObjDtype where
  "ObjDtype_Float64 = \<lparr>dtype_code = Code_Float, obj_byte_size = 8\<rparr>"

definition ObjDtype_Int32 :: ObjDtype where
  "ObjDtype_Int32 = \<lparr>dtype_code = Code_Int, obj_byte_size = 4\<rparr>"

definition ObjDtype_Int64 :: ObjDtype where
  "ObjDtype_Int64 = \<lparr>dtype_code = Code_Int, obj_byte_size = 8\<rparr>"

definition ObjDtype_UInt8 :: ObjDtype where
  "ObjDtype_UInt8 = \<lparr>dtype_code = Code_UInt, obj_byte_size = 1\<rparr>"

definition ObjDtype_UInt16 :: ObjDtype where
  "ObjDtype_UInt16 = \<lparr>dtype_code = Code_UInt, obj_byte_size = 2\<rparr>"

definition ObjDtype_Bool :: ObjDtype where
  "ObjDtype_Bool = \<lparr>dtype_code = Code_Bool, obj_byte_size = 1\<rparr>"

text \<open>\<^verbatim>\<open>ObjDtype::FromType<T>\<close>, with the same shape as \<^verbatim>\<open>DtypeUtil::FromType<T>\<close>.\<close>

fun ObjDtype_FromType :: "CType \<Rightarrow> error + ObjDtype" where
  "ObjDtype_FromType C_float = Inr ObjDtype_Float32"
| "ObjDtype_FromType C_double = Inr ObjDtype_Float64"
| "ObjDtype_FromType C_int32_t = Inr ObjDtype_Int32"
| "ObjDtype_FromType C_int64_t = Inr ObjDtype_Int64"
| "ObjDtype_FromType C_uint8_t = Inr ObjDtype_UInt8"
| "ObjDtype_FromType C_uint16_t = Inr ObjDtype_UInt16"
| "ObjDtype_FromType C_bool = Inr ObjDtype_Bool"
| "ObjDtype_FromType (C_other T) =
     (case LogError (UnsupportedType ''Unsupported data type'') of
        Inl e \<Rightarrow> Inl e
      | Inr u \<Rightarrow> Inr ObjDtype_Undefined)"

section \<open>Tensors, buffers and the compute backend\<close>

text \<open>
  A buffer is a sequence of bytes together with the number of tensors that hold it. The
  store holds every buffer allocated so far; a data pointer is the position of a buffer in
  the store, so two tensors share a buffer exactly when their data pointers are equal, and
  an allocation appends a buffer at the first unused position. A buffer that no tensor
  holds any more is released: it keeps its position, and a pointer to it dangles. What a
  read through a pointer that is no position of the store finds is left open, here as in
  C++.
\<close>

type_synonym byte = "8 word"
type_synonym addr = nat
type_synonym Device = string

record buffer =
  bytes :: "byte list"
  holders :: nat

text \<open>
  \<^verbatim>\<open>class Tensor\<close> is declared in headers that are not among the sources; the record has
  the attributes that the spec lists for it, each under the name of the accessor through
  which the sources read it (\<^verbatim>\<open>A.GetShape()\<close> is \<open>GetShape A\<close>). A \<^verbatim>\<open>SizeVector\<close> holds
  \<^verbatim>\<open>int64_t\<close> entries; the spec restricts them to non-negative sizes, and \<^verbatim>\<open>MatmulCPU\<close>
  only compares them and passes them on, so they are natural numbers here.
\<close>

record Tensor =
  GetShape :: "nat list"
  GetDtype :: Dtype
  GetDevice :: Device
  GetDataPtr :: addr
  IsContiguous :: bool

text \<open>The enumerations and the argument list of the gemm routines, as \<^verbatim>\<open>mkl.h\<close> declares them.\<close>

datatype CBLAS_LAYOUT = CblasRowMajor | CblasColMajor

datatype CBLAS_TRANSPOSE = CblasNoTrans | CblasTrans | CblasConjTrans

record gemm_args =
  blas_Layout :: CBLAS_LAYOUT
  blas_TransA :: CBLAS_TRANSPOSE
  blas_TransB :: CBLAS_TRANSPOSE
  blas_M :: nat
  blas_N :: nat
  blas_K :: nat
  blas_alpha :: real
  blas_A :: addr
  blas_lda :: nat
  blas_B :: addr
  blas_ldb :: nat
  blas_beta :: real
  blas_C :: addr
  blas_ldc :: nat

text \<open>
  A call of a routine of the compute backend: the single-precision routine, which takes its
  three buffers as arrays of \<^verbatim>\<open>float\<close>, or its double-precision sibling.
\<close>

datatype backend_call = Cblas_sgemm gemm_args | Cblas_dgemm gemm_args

text \<open>
  An access to memory that C++ leaves undefined: through a pointer to no buffer or to a
  released one, or past the end of a buffer (with the number of bytes past the end). The
  program does not notice such an access; the state keeps a record of it.
\<close>

datatype memory_fault =
    DanglingPointer addr
  | ReadPastEnd addr nat
  | WritePastEnd addr nat

text \<open>
  The state that \<^verbatim>\<open>MatmulCPU\<close> acts on: the store, the calls made to the compute backend so
  far, each with the store as it was when the call was made, and the undefined accesses so
  far.
\<close>

record state =
  heap :: "buffer list"
  backend_log :: "(backend_call \<times> buffer list) list"
  faults :: "memory_fault list"

text \<open>
  The object representation of a \<^verbatim>\<open>float\<close>: four bytes, by the \<^verbatim>\<open>static_assert\<close> on
  \<^verbatim>\<open>sizeof(float)\<close>. Reading memory through a \<^verbatim>\<open>float*\<close> takes the bytes four at a time,
  whatever was stored there; storing through it puts four bytes per element.
\<close>

datatype cfloat = FloatBytes byte byte byte byte

fun as_floats :: "byte list \<Rightarrow> cfloat list" where
  "as_floats (b0 # b1 # b2 # b3 # bs) = FloatBytes b0 b1 b2 b3 # as_floats bs"
| "as_floats bs = []"

fun float_bytes :: "cfloat list \<Rightarrow> byte list" where
  "float_bytes [] = []"
| "float_bytes (FloatBytes b0 b1 b2 b3 # fs) = b0 # b1 # b2 # b3 # float_bytes fs"

text \<open>
  What the external collaborators compute is not part of the sources and is a parameter:
  \<open>sgemm_elem ext g a b c i\<close> is the \<^verbatim>\<open>float\<close> that \<^verbatim>\<open>cblas_sgemm\<close>, called with the
  arguments \<open>g\<close>, leaves at position \<open>i\<close> behind its \<^verbatim>\<open>C\<close> pointer when it finds the
  \<^verbatim>\<open>float\<close>s \<open>a\<close>, \<open>b\<close> and \<open>c\<close> behind its three pointers; \<open>dense_layout ext t buf\<close> is the
  dense copy of the elements that the view \<open>t\<close> selects from the bytes \<open>buf\<close>.
\<close>

record extern =
  sgemm_elem :: "gemm_args \<Rightarrow> cfloat list \<Rightarrow> cfloat list \<Rightarrow> cfloat list \<Rightarrow> nat \<Rightarrow> cfloat"
  dense_layout :: "Tensor \<Rightarrow> byte list \<Rightarrow> byte list"

text \<open>
  Modelled from the spec: \<^verbatim>\<open>Tensor::Zeros\<close> is not among the sources. The spec's zero-filled
  tensor factory takes a shape, a dtype and a device, allocates a buffer of
  \<open>byteSize(dtype) * product(shape)\<close> bytes and zero-initialises it. The byte-size lookup
  fails for a dtype without a byte size, and then nothing is allocated. The new tensor is
  the one holder of the new buffer.
\<close>

definition Zeros :: "nat list \<Rightarrow> Dtype \<Rightarrow> Device \<Rightarrow> state \<Rightarrow> (error + Tensor) \<times> state" where
  "Zeros shape dtype device s =
     (case ByteSize dtype of
        Inl e \<Rightarrow> (Inl e, s)
      | Inr byte_size \<Rightarrow>
          (Inr \<lparr>GetShape = shape, GetDtype = dtype, GetDevice = device,
                GetDataPtr = length (heap s), IsContiguous = True\<rparr>,
           s\<lparr>heap := heap s @ [\<lparr>bytes = replicate (nat byte_size * prod_list shape) 0,
                                 holders = 1\<rparr>]\<rparr>))"

text \<open>
  Modelled from the spec: \<^verbatim>\<open>Tensor::Contiguous\<close> is not among the sources. The spec's
  make-contiguous operation returns a dense view: when the tensor is dense already it is a
  view of the same buffer, which gets one holder more, and nothing is copied; otherwise
  the elements are copied into a new buffer, which the view alone holds.
\<close>

definition Contiguous :: "extern \<Rightarrow> Tensor \<Rightarrow> state \<Rightarrow> Tensor \<times> state" where
  "Contiguous ext t s =
     (if IsContiguous t
      then (t, s\<lparr>heap := (heap s)[GetDataPtr t :=
                   (heap s ! GetDataPtr t)\<lparr>holders := Suc (holders (heap s ! GetDataPtr t))\<rparr>]\<rparr>)
      else (t\<lparr>GetDataPtr := length (heap s), IsContiguous := True\<rparr>,
            s\<lparr>heap := heap s @ [\<lparr>bytes = dense_layout ext t (bytes (heap s ! GetDataPtr t)),
                                  holders = 1\<rparr>]\<rparr>))"

text \<open>
  Modelled from the spec: the destructor of \<^verbatim>\<open>Tensor\<close> is not among the sources. By the
  spec a buffer is reference-counted and lives as long as its longest holder: a tensor that
  is destroyed gives up its hold, and the buffer is released with its last holder.
\<close>

definition Tensor_destroy :: "Tensor \<Rightarrow> state \<Rightarrow> state" where
  "Tensor_destroy t s =
     s\<lparr>heap := (heap s)[GetDataPtr t :=
                  (heap s ! GetDataPtr t)\<lparr>holders := holders (heap s ! GetDataPtr t) - 1\<rparr>]\<rparr>"

text \<open>
  The number of elements that a dense matrix of \<open>rows\<close> by \<open>cols\<close> elements with leading
  dimension \<open>ld\<close> spans in its buffer: the leading dimension is the distance between
  consecutive columns in column-major order, between consecutive rows in row-major order.
\<close>

definition matrix_extent :: "CBLAS_LAYOUT \<Rightarrow> nat \<Rightarrow> nat \<Rightarrow> nat \<Rightarrow> nat" where
  "matrix_extent layout rows cols ld =
     (if rows = 0 \<or> cols = 0 then 0
      else (case layout of
              CblasColMajor \<Rightarrow> ld * (cols - 1) + rows
            | CblasRowMajor \<Rightarrow> ld * (rows - 1) + cols))"

definition check_read :: "buffer list \<Rightarrow> addr \<Rightarrow> nat \<Rightarrow> memory_fault list" where
  "check_read h p n =
     (if length h \<le> p \<or> holders (h ! p) = 0 then [DanglingPointer p]
      else if length (bytes (h ! p)) < n then [ReadPastEnd p (n - length (bytes (h ! p)))]
      else [])"

definition check_write :: "buffer list \<Rightarrow> addr \<Rightarrow> nat \<Rightarrow> memory_fault list" where
  "check_write h p n =
     (if length h \<le> p \<or> holders (h ! p) = 0 then [DanglingPointer p]
      else if length (bytes (h ! p)) < n then [WritePastEnd p (n - length (bytes (h ! p)))]
      else [])"

text \<open>
  Modelled from the spec: \<^verbatim>\<open>cblas_sgemm\<close> belongs to the external numeric library. By the
  spec it is a dense matrix multiplication that takes a storage order, a transposition
  flag per operand, the dimensions, two scalars, and a raw pointer and a leading dimension
  per buffer. The operand buffers are taken as \<^verbatim>\<open>const float*\<close> and read over the extent of
  the stored matrices (\<open>M\<close> by \<open>K\<close> and \<open>K\<close> by \<open>N\<close>, each the other way round when
  transposed); the result buffer is taken as \<^verbatim>\<open>float*\<close> and written over the extent of an
  \<open>M\<close> by \<open>N\<close> matrix, four bytes per element. The part of the written bytes that the
  result buffer has room for goes into it; an access to a buffer that is too short, or
  through a dangling pointer, is recorded. The call is entered in the log.
\<close>

definition cblas_sgemm :: "extern \<Rightarrow> gemm_args \<Rightarrow> state \<Rightarrow> state" where
  "cblas_sgemm ext g s =
     (let h = heap s;
          extent_A = (if blas_TransA g = CblasNoTrans
                      then matrix_extent (blas_Layout g) (blas_M g) (blas_K g) (blas_lda g)
                      else matrix_extent (blas_Layout g) (blas_K g) (blas_M g) (blas_lda g));
          extent_B = (if blas_TransB g = CblasNoTrans
                      then matrix_extent (blas_Layout g) (blas_K g) (blas_N g) (blas_ldb g)
                      else matrix_extent (blas_Layout g) (blas_N g) (blas_K g) (blas_ldb g));
          extent_C = matrix_extent (blas_Layout g) (blas_M g) (blas_N g) (blas_ldc g);
          a = as_floats (take (4 * extent_A) (bytes (h ! blas_A g)));
          b = as_floats (take (4 * extent_B) (bytes (h ! blas_B g)));
          c = as_floats (take (4 * extent_C) (bytes (h ! blas_C g)));
          written = float_bytes (map (sgemm_elem ext g a b c) [0..<extent_C]);
          old = bytes (h ! blas_C g)
      in s\<lparr>heap := h[blas_C g :=
                      (h ! blas_C g)\<lparr>bytes := take (length old) written @
                                                drop (length written) old\<rparr>],
           backend_log := backend_log s @ [(Cblas_sgemm g, h)],
           faults := faults s @ check_read h (blas_A g) (4 * extent_A) @
                     check_read h (blas_B g) (4 * extent_B) @
                     check_write h (blas_C g) (4 * extent_C)\<rparr>)"

text \<open>
  The \<^verbatim>\<open>{}\<close> placeholder of a \<^verbatim>\<open>LogError\<close> format string prints an integer argument in
  decimal.
\<close>

definition digit_char :: "nat \<Rightarrow> char" where
  "digit_char d = ''0123456789'' ! d"

function string_of_nat :: "nat \<Rightarrow> string" where
  "string_of_nat n =
     (if n < 10 then [digit_char n]
      else string_of_nat (n div 10) @ [digit_char (n mod 10)])"
  by pat_completeness auto
termination
  by (relation "measure (\<lambda>n. n)") auto

declare string_of_nat.simps [simp del]

section \<open>MatmulCPU: the CPU path of the matrix product\<close>

text \<open>
  The sources hold one code path of the matrix product, \<^verbatim>\<open>MatmulCPU\<close>; it is the function
  that every statement about \<open>Matmul\<close> below is about. Here it is statement by statement.
  Each of the three checks calls \<^verbatim>\<open>LogError\<close> when it fails; the statements after a check
  run only when the call returns. \<^verbatim>\<open>A_shape[1]\<close> and \<^verbatim>\<open>B_shape[0]\<close> are read after both
  rank checks. The tensor that \<^verbatim>\<open>A.Contiguous()\<close> returns is a temporary of the statement
  \<^verbatim>\<open>void* A_data = A.Contiguous().GetDataPtr();\<close> and is destroyed at its end, and so for
  \<^verbatim>\<open>B\<close>; the pointers are kept.
\<close>

definition MatmulCPU :: "extern \<Rightarrow> Tensor \<Rightarrow> Tensor \<Rightarrow> state \<Rightarrow> (error + Tensor) \<times> state" where
  "MatmulCPU ext A B s =
     (let A_shape = GetShape A; B_shape = GetShape B in
      (case (if length A_shape \<noteq> 2
             then LogError (ShapeError (''Tensor A must be 2D, but got '' @
                                        string_of_nat (length A_shape) @ ''D''))
             else Inr ()) of
         Inl e \<Rightarrow> (Inl e, s)
       | Inr u1 \<Rightarrow>
      (case (if length B_shape \<noteq> 2
             then LogError (ShapeError (''Tensor B must be 2D, but got '' @
                                        string_of_nat (length B_shape) @ ''D''))
             else Inr ()) of
         Inl e \<Rightarrow> (Inl e, s)
       | Inr u2 \<Rightarrow>
      (case (if A_shape ! 1 \<noteq> B_shape ! 0
             then LogError (ShapeError (''Tensor A columns '' @ string_of_nat (A_shape ! 1) @
                                        '' mismatch with Tensor B rows '' @
                                        string_of_nat (B_shape ! 0)))
             else Inr ()) of
         Inl e \<Rightarrow> (Inl e, s)
       | Inr u3 \<Rightarrow>
      (let m = A_shape ! 0; k = A_shape ! 1; n = B_shape ! 1 in
      (case Zeros [m, n] (GetDtype A) (GetDevice A) s of
         (Inl e, s1) \<Rightarrow> (Inl e, s1)
       | (Inr C, s1) \<Rightarrow>
      (let alpha = 1; beta = 0;
           (A_temporary, s2) = Contiguous ext A s1;
           A_data = GetDataPtr A_temporary;
           s3 = Tensor_destroy A_temporary s2;
           (B_temporary, s4) = Contiguous ext B s3;
           B_data = GetDataPtr B_temporary;
           s5 = Tensor_destroy B_temporary s4;
           C_data = GetDataPtr C;
           s6 = cblas_sgemm ext
                  \<lparr>blas_Layout = CblasColMajor,
                   blas_TransA = CblasNoTrans,
                   blas_TransB = CblasNoTrans,
                   blas_M = m, blas_N = n, blas_K = k,
                   blas_alpha = alpha,
                   blas_A = A_data, blas_lda = m,
                   blas_B = B_data, blas_ldb = k,
                   blas_beta = beta,
                   blas_C = C_data, blas_ldc = m\<rparr> s5
       in (Inr C, s6))))))))"

section \<open>Concrete operands\<close>

text \<open>
  The inputs at which the theorems below are instantiated: a store with two buffers of 512
  bytes, each held by one tensor, an empty log and no undefined access; dense tensors over
  it; and stand-ins for the external collaborators (the routine leaves at position \<open>i\<close> the
  \<^verbatim>\<open>float\<close> it found at position \<open>i\<close> behind its \<^verbatim>\<open>A\<close> pointer, or four zero bytes
  when it found fewer elements there; the dense copy of a buffer is the buffer).
\<close>

definition example_extern :: extern where
  "example_extern =
     \<lparr>sgemm_elem = (\<lambda>g a b c i. if i < length a then a ! i else FloatBytes 0 0 0 0),
      dense_layout = (\<lambda>t buf. buf)\<rparr>"

definition example_state :: state where
  "example_state =
     \<lparr>heap = [\<lparr>bytes = replicate 512 1, holders = 1\<rparr>, \<lparr>bytes = replicate 512 2, holders = 1\<rparr>],
      backend_log = [], faults = []\<rparr>"

definition example_tensor :: "nat list \<Rightarrow> Dtype \<Rightarrow> Device \<Rightarrow> addr \<Rightarrow> Tensor" where
  "example_tensor shape dtype device p =
     \<lparr>GetShape = shape, GetDtype = dtype, GetDevice = device, GetDataPtr = p,
      IsContiguous = True\<rparr>"

section \<open>Properties of the dtype registry\<close>

text \<open>
  C5. For each of the seven supported primitive types \<open>T\<close>, \<open>FromType<T>()\<close> is a dtype whose
  \<open>ByteSize\<close> is the platform size of \<open>T\<close>, and whose \<open>ToString\<close> is a label that no other
  supported type shares. In the order float, double, int32_t, int64_t, uint8_t, uint16_t,
  bool the byte sizes are 4, 8, 4, 8, 1, 2, 1. Both lookups are functions of the dtype alone,
  so the label of a type is the same at every call.
\<close>

theorem FromType_ByteSize_ToString:
  assumes "T \<in> set supported_types"
  shows "(\<exists>d b l. FromType T = Inr d \<and> ByteSize d = Inr b \<and> sizeof T = Some b \<and>
                  ToString d = Inr l \<and>
                  (\<forall>T' \<in> set supported_types. \<forall>d'.
                      FromType T' = Inr d' \<and> ToString d' = Inr l \<longrightarrow> T' = T)) \<and>
         map (\<lambda>T. case FromType T of Inl e \<Rightarrow> Inl e | Inr d \<Rightarrow> ByteSize d) supported_types =
           [Inr 4, Inr 8, Inr 4, Inr 8, Inr 1, Inr 2, Inr 1]"
  using assms by (auto simp: supported_types_def)

theorem FromType_ByteSize_ToString_witness:
  "C_uint16_t \<in> set supported_types \<and>
   (\<exists>d b l. FromType C_uint16_t = Inr d \<and> ByteSize d = Inr b \<and> sizeof C_uint16_t = Some b \<and>
            ToString d = Inr l \<and>
            (\<forall>T' \<in> set supported_types. \<forall>d'.
                FromType T' = Inr d' \<and> ToString d' = Inr l \<longrightarrow> T' = C_uint16_t)) \<and>
   ByteSize UInt16 = Inr 2 \<and> ToString UInt16 = Inr ''UInt16'' \<and>
   C_uint8_t \<in> set supported_types \<and> ToString UInt8 \<noteq> ToString UInt16"
proof -
  have member: "C_uint16_t \<in> set supported_types"
    by (simp add: supported_types_def)
  from FromType_ByteSize_ToString [OF member] member show ?thesis
    by (simp add: supported_types_def)
qed

text \<open>
  C6. For every primitive type \<open>T\<close> that is none of the seven supported types, both
  \<open>DtypeUtil::FromType<T>()\<close> and \<open>ObjDtype::FromType<T>()\<close> fail with the diagnostic
  "Unsupported data type"; no dtype is returned, the \<open>Undefined\<close> of the statement after
  the \<open>LogError\<close> call included.
\<close>

theorem FromType_unsupported:
  assumes "T \<notin> set supported_types"
  shows "FromType T = Inl (UnsupportedType ''Unsupported data type'') \<and>
         ObjDtype_FromType T = Inl (UnsupportedType ''Unsupported data type'') \<and>
         FromType T \<noteq> Inr Undefined \<and> ObjDtype_FromType T \<noteq> Inr ObjDtype_Undefined"
  using assms by (cases T) (simp_all add: supported_types_def LogError_def)

theorem FromType_unsupported_witness:
  "C_other ''int8_t'' \<notin> set supported_types \<and>
   FromType (C_other ''int8_t'') = Inl (UnsupportedType ''Unsupported data type'') \<and>
   ObjDtype_FromType (C_other ''int8_t'') = Inl (UnsupportedType ''Unsupported data type'') \<and>
   FromType (C_other ''int8_t'') \<noteq> Inr Undefined \<and>
   ObjDtype_FromType (C_other ''int8_t'') \<noteq> Inr ObjDtype_Undefined"
proof -
  have outside: "C_other ''int8_t'' \<notin> set supported_types"
    by (simp add: supported_types_def)
  from FromType_unsupported [OF outside] outside show ?thesis
    by simp
qed

text \<open>
  C7, as stated: \<open>ByteSize\<close> and \<open>ToString\<close> both fail on the \<open>Undefined\<close> dtype. For
  \<open>ToString\<close> this is not so: the switch has a case for \<open>Dtype::Undefined\<close>, and the call
  returns the name "Undefined".
\<close>

theorem ToString_Undefined_counterexample:
  "ToString Undefined = Inr ''Undefined'' \<and>
   ToString Undefined \<noteq> Inl (UnsupportedType ''Unsupported data type'')"
  by simp

text \<open>
  C7, amended. \<open>ByteSize\<close> fails with the diagnostic "Unsupported data type" on the
  \<open>Undefined\<close> dtype and on every value that is none of the enumerators; \<open>ToString\<close> fails
  with it on every value that is none of the enumerators, and returns the name "Undefined"
  for the \<open>Undefined\<close> dtype.
\<close>

theorem ByteSize_ToString_unsupported:
  "ByteSize Undefined = Inl (UnsupportedType ''Unsupported data type'') \<and>
   ByteSize (Unrecognized v) = Inl (UnsupportedType ''Unsupported data type'') \<and>
   ToString (Unrecognized v) = Inl (UnsupportedType ''Unsupported data type'') \<and>
   ToString Undefined = Inr ''Undefined''"
  by (simp add: LogError_def)

section \<open>Properties of the CPU path of the matrix product\<close>

lemma string_of_nat_digit: "n < 10 \<Longrightarrow> string_of_nat n = [digit_char n]"
  by (simp add: string_of_nat.simps)

lemma length_float_bytes: "length (float_bytes fs) = 4 * length fs"
  by (induction fs rule: float_bytes.induct) simp_all

lemma matrix_extent_dense: "matrix_extent CblasColMajor r c r = r * c"
  by (cases c) (simp_all add: matrix_extent_def)

text \<open>
  The statement \<^verbatim>\<open>void* A_data = A.Contiguous().GetDataPtr();\<close> as a whole: a dense operand
  leaves the store as it was, and for any other operand the store has one buffer more, the
  copy, released already.
\<close>

lemma temporary_state:
  "Tensor_destroy (fst (Contiguous ext t s)) (snd (Contiguous ext t s)) =
     s\<lparr>heap := heap s @
          (if IsContiguous t then []
           else [\<lparr>bytes = dense_layout ext t (bytes (heap s ! GetDataPtr t)), holders = 0\<rparr>])\<rparr>"
proof (cases "GetDataPtr t < length (heap s)")
  case True
  then show ?thesis
    by (simp add: Contiguous_def Tensor_destroy_def list_update_same_conv)
next
  case False
  then show ?thesis
    by (simp add: Contiguous_def Tensor_destroy_def list_update_beyond)
qed

lemma temporary_ptr:
  "GetDataPtr (fst (Contiguous ext t s)) =
     (if IsContiguous t then GetDataPtr t else length (heap s))"
  by (simp add: Contiguous_def)

lemma MatmulCPU_ok:
  assumes "GetShape A = [m, k]" and "GetShape B = [k, n]" and "ByteSize (GetDtype A) = Inr bs"
  shows "MatmulCPU ext A B s =
    (let h1 = heap s @ [\<lparr>bytes = replicate (nat bs * (m * n)) 0, holders = 1\<rparr>];
         h2 = h1 @ (if IsContiguous A then []
                    else [\<lparr>bytes = dense_layout ext A (bytes (h1 ! GetDataPtr A)), holders = 0\<rparr>]);
         h3 = h2 @ (if IsContiguous B then []
                    else [\<lparr>bytes = dense_layout ext B (bytes (h2 ! GetDataPtr B)), holders = 0\<rparr>])
     in (Inr \<lparr>GetShape = [m, n], GetDtype = GetDtype A, GetDevice = GetDevice A,
              GetDataPtr = length (heap s), IsContiguous = True\<rparr>,
         cblas_sgemm ext
           \<lparr>blas_Layout = CblasColMajor, blas_TransA = CblasNoTrans,
            blas_TransB = CblasNoTrans,
            blas_M = m, blas_N = n, blas_K = k, blas_alpha = 1,
            blas_A = (if IsContiguous A then GetDataPtr A else length h1), blas_lda = m,
            blas_B = (if IsContiguous B then GetDataPtr B else length h2), blas_ldb = k,
            blas_beta = 0, blas_C = length (heap s), blas_ldc = m\<rparr>
           (s\<lparr>heap := h3\<rparr>)))"
  using assms
  by (simp add: MatmulCPU_def Zeros_def Let_def split_beta temporary_state temporary_ptr)

text \<open>
  C1. For operands \<open>A\<close> of shape \<open>(m, k)\<close> and \<open>B\<close> of shape \<open>(k, n)\<close>, where \<open>A\<close> carries a
  dtype that has a byte size (one of the seven dtypes other than \<open>Undefined\<close>, which the
  data model excludes as an operand dtype), the call returns a tensor of shape \<open>(m, n)\<close>
  with the dtype and the device of \<open>A\<close>. The bound \<open>m, k, n \<ge> 1\<close> of the claim is not
  needed.
\<close>

theorem MatmulCPU_result:
  assumes "GetShape A = [m, k]" and "GetShape B = [k, n]" and "ByteSize (GetDtype A) = Inr bs"
  shows "\<exists>C s'. MatmulCPU ext A B s = (Inr C, s') \<and>
           GetShape C = [m, n] \<and> GetDtype C = GetDtype A \<and> GetDevice C = GetDevice A"
  using MatmulCPU_ok [OF assms, of ext s] by (simp add: Let_def)

theorem MatmulCPU_result_witness:
  "GetShape (example_tensor [2, 3] Float32 ''CPU:0'' 0) = [2, 3] \<and>
   GetShape (example_tensor [3, 5] Float32 ''CPU:0'' 1) = [3, 5] \<and>
   ByteSize (GetDtype (example_tensor [2, 3] Float32 ''CPU:0'' 0)) = Inr 4 \<and>
   (\<exists>C s'. MatmulCPU example_extern (example_tensor [2, 3] Float32 ''CPU:0'' 0)
                     (example_tensor [3, 5] Float32 ''CPU:0'' 1) example_state = (Inr C, s') \<and>
           GetShape C = [2, 5] \<and> GetDtype C = Float32 \<and> GetDevice C = ''CPU:0'')"
proof -
  have a: "GetShape (example_tensor [2, 3] Float32 ''CPU:0'' 0) = [2, 3]"
    and b: "GetShape (example_tensor [3, 5] Float32 ''CPU:0'' 1) = [3, 5]"
    and d: "ByteSize (GetDtype (example_tensor [2, 3] Float32 ''CPU:0'' 0)) = Inr 4"
    by (simp_all add: example_tensor_def)
  from MatmulCPU_result [OF a b d, of example_extern example_state] a b d show ?thesis
    by (simp add: example_tensor_def)
qed

text \<open>
  C2. An operand whose rank is not 2 makes the call fail with a shape error whose message
  holds the actual rank in decimal: the rank of \<open>A\<close> when the rank of \<open>A\<close> is not 2, and
  the rank of \<open>B\<close> when the rank of \<open>A\<close> is 2 and that of \<open>B\<close> is not (the check of \<open>A\<close>
  comes first). The state returned with the error is the state of the call: nothing has been
  allocated and no call of the compute backend has been made.
\<close>

theorem MatmulCPU_rank_error:
  "(length (GetShape A) \<noteq> 2 \<longrightarrow>
      MatmulCPU ext A B s =
        (Inl (ShapeError (''Tensor A must be 2D, but got '' @
                          string_of_nat (length (GetShape A)) @ ''D'')), s)) \<and>
   (length (GetShape A) = 2 \<and> length (GetShape B) \<noteq> 2 \<longrightarrow>
      MatmulCPU ext A B s =
        (Inl (ShapeError (''Tensor B must be 2D, but got '' @
                          string_of_nat (length (GetShape B)) @ ''D'')), s))"
  by (simp add: MatmulCPU_def Let_def LogError_def)

theorem MatmulCPU_rank_error_witness:
  "MatmulCPU example_extern (example_tensor [3] Float32 ''CPU:0'' 0)
             (example_tensor [3, 5] Float32 ''CPU:0'' 1) example_state =
     (Inl (ShapeError ''Tensor A must be 2D, but got 1D''), example_state) \<and>
   MatmulCPU example_extern (example_tensor [2, 2, 2] Float32 ''CPU:0'' 0)
             (example_tensor [3, 5] Float32 ''CPU:0'' 1) example_state =
     (Inl (ShapeError ''Tensor A must be 2D, but got 3D''), example_state) \<and>
   MatmulCPU example_extern (example_tensor [2, 3] Float32 ''CPU:0'' 0)
             (example_tensor [3, 5, 7] Float32 ''CPU:0'' 1) example_state =
     (Inl (ShapeError ''Tensor B must be 2D, but got 3D''), example_state)"
  using MatmulCPU_rank_error [of "example_tensor [3] Float32 ''CPU:0'' 0" example_extern
          "example_tensor [3, 5] Float32 ''CPU:0'' 1" example_state]
        MatmulCPU_rank_error [of "example_tensor [2, 2, 2] Float32 ''CPU:0'' 0" example_extern
          "example_tensor [3, 5] Float32 ''CPU:0'' 1" example_state]
        MatmulCPU_rank_error [of "example_tensor [2, 3] Float32 ''CPU:0'' 0" example_extern
          "example_tensor [3, 5, 7] Float32 ''CPU:0'' 1" example_state]
  by (simp add: example_tensor_def string_of_nat_digit digit_char_def)

text \<open>
  C3. For operands of rank 2 whose inner dimensions \<open>A.shape[1]\<close> and \<open>B.shape[0]\<close> differ,
  the call fails with a shape error whose message holds both sizes in decimal, before
  anything is allocated or computed. For the shapes \<open>(2, 3)\<close> and \<open>(4, 5)\<close> the message
  reports 3 and 4.
\<close>

theorem MatmulCPU_inner_dimension_error:
  assumes "GetShape A = [m, k]" and "GetShape B = [k', n]" and "k \<noteq> k'"
  shows "MatmulCPU ext A B s =
           (Inl (ShapeError (''Tensor A columns '' @ string_of_nat k @
                             '' mismatch with Tensor B rows '' @ string_of_nat k')), s)"
  using assms by (simp add: MatmulCPU_def Let_def LogError_def)

theorem MatmulCPU_inner_dimension_error_witness:
  "GetShape (example_tensor [2, 3] Float32 ''CPU:0'' 0) = [2, 3] \<and>
   GetShape (example_tensor [4, 5] Float32 ''CPU:0'' 1) = [4, 5] \<and> (3::nat) \<noteq> 4 \<and>
   MatmulCPU example_extern (example_tensor [2, 3] Float32 ''CPU:0'' 0)
             (example_tensor [4, 5] Float32 ''CPU:0'' 1) example_state =
     (Inl (ShapeError ''Tensor A columns 3 mismatch with Tensor B rows 4''), example_state)"
proof -
  have a: "GetShape (example_tensor [2, 3] Float32 ''CPU:0'' 0) = [2, 3]"
    and b: "GetShape (example_tensor [4, 5] Float32 ''CPU:0'' 1) = [4, 5]"
    and ne: "(3::nat) \<noteq> 4"
    by (simp_all add: example_tensor_def)
  from MatmulCPU_inner_dimension_error [OF a b ne, of example_extern example_state] a b ne
  show ?thesis
    by (simp add: string_of_nat_digit digit_char_def)
qed


text \<open>
  C4. For valid operands the call makes one call of the compute backend. The store on which
  that call is made is the store of the caller, followed by the buffer of the result, which
  holds zero bytes only (\<open>ByteSize(dtype) * m * n\<close> of them), followed by the copies that
  the contiguity step made; the final state is the one the routine leaves on that store.
  The \<open>C\<close> pointer of the call is the data pointer of the result. The routine is called in
  column-major order, with no transposition of either operand, \<open>alpha = 1\<close>, \<open>beta = 0\<close>,
  dimensions \<open>m, n, k\<close> and leading dimensions \<open>m\<close> for \<open>A\<close>, \<open>k\<close> for \<open>B\<close> and \<open>m\<close> for
  \<open>C\<close>.
\<close>

theorem MatmulCPU_gemm_call:
  assumes "GetShape A = [m, k]" and "GetShape B = [k, n]" and "ByteSize (GetDtype A) = Inr bs"
  shows "\<exists>C s' g h ys. MatmulCPU ext A B s = (Inr C, s') \<and>
           backend_log s' = backend_log s @ [(Cblas_sgemm g, h)] \<and>
           h = heap s @ [\<lparr>bytes = replicate (nat bs * (m * n)) 0, holders = 1\<rparr>] @ ys \<and>
           s' = cblas_sgemm ext g (s\<lparr>heap := h\<rparr>) \<and>
           GetDataPtr C = length (heap s) \<and> blas_C g = GetDataPtr C \<and>
           blas_Layout g = CblasColMajor \<and>
           blas_TransA g = CblasNoTrans \<and> blas_TransB g = CblasNoTrans \<and>
           blas_M g = m \<and> blas_N g = n \<and> blas_K g = k \<and>
           blas_alpha g = 1 \<and> blas_beta g = 0 \<and>
           blas_lda g = m \<and> blas_ldb g = k \<and> blas_ldc g = m"
proof -
  let ?z = "\<lparr>bytes = replicate (nat bs * (m * n)) 0, holders = 1\<rparr>"
  let ?h1 = "heap s @ [?z]"
  let ?ya = "if IsContiguous A then []
             else [\<lparr>bytes = dense_layout ext A (bytes (?h1 ! GetDataPtr A)), holders = 0\<rparr>]"
  let ?h2 = "?h1 @ ?ya"
  let ?yb = "if IsContiguous B then []
             else [\<lparr>bytes = dense_layout ext B (bytes (?h2 ! GetDataPtr B)), holders = 0\<rparr>]"
  let ?h3 = "?h2 @ ?yb"
  let ?C = "\<lparr>GetShape = [m, n], GetDtype = GetDtype A, GetDevice = GetDevice A,
             GetDataPtr = length (heap s), IsContiguous = True\<rparr>"
  let ?g = "\<lparr>blas_Layout = CblasColMajor, blas_TransA = CblasNoTrans,
             blas_TransB = CblasNoTrans,
             blas_M = m, blas_N = n, blas_K = k, blas_alpha = 1,
             blas_A = (if IsContiguous A then GetDataPtr A else length ?h1), blas_lda = m,
             blas_B = (if IsContiguous B then GetDataPtr B else length ?h2), blas_ldb = k,
             blas_beta = 0, blas_C = length (heap s), blas_ldc = m\<rparr>"
  let ?s' = "cblas_sgemm ext ?g (s\<lparr>heap := ?h3\<rparr>)"
  have call: "MatmulCPU ext A B s = (Inr ?C, ?s')"
    using MatmulCPU_ok [OF assms, of ext s] by (simp add: Let_def)
  have log: "backend_log ?s' = backend_log s @ [(Cblas_sgemm ?g, ?h3)]"
    by (simp add: cblas_sgemm_def Let_def)
  have store: "?h3 = heap s @ [?z] @ (?ya @ ?yb)"
    by simp
  from call log store show ?thesis
    by (intro exI [of _ ?C] exI [of _ ?s'] exI [of _ ?g] exI [of _ ?h3]
              exI [of _ "?ya @ ?yb"]) simp
qed

theorem MatmulCPU_gemm_call_witness:
  "GetShape (example_tensor [2, 3] Float32 ''CPU:0'' 0) = [2, 3] \<and>
   GetShape (example_tensor [3, 5] Float32 ''CPU:0'' 1) = [3, 5] \<and>
   ByteSize (GetDtype (example_tensor [2, 3] Float32 ''CPU:0'' 0)) = Inr 4 \<and>
   (\<exists>C s' g h ys. MatmulCPU example_extern (example_tensor [2, 3] Float32 ''CPU:0'' 0)
                     (example_tensor [3, 5] Float32 ''CPU:0'' 1) example_state = (Inr C, s') \<and>
           backend_log s' = [(Cblas_sgemm g, h)] \<and>
           h = heap example_state @ [\<lparr>bytes = replicate 40 0, holders = 1\<rparr>] @ ys \<and>
           s' = cblas_sgemm example_extern g (example_state\<lparr>heap := h\<rparr>) \<and>
           GetDataPtr C = 2 \<and> blas_C g = GetDataPtr C \<and>
           blas_Layout g = CblasColMajor \<and>
           blas_TransA g = CblasNoTrans \<and> blas_TransB g = CblasNoTrans \<and>
           blas_M g = 2 \<and> blas_N g = 5 \<and> blas_K g = 3 \<and>
           blas_alpha g = 1 \<and> blas_beta g = 0 \<and>
           blas_lda g = 2 \<and> blas_ldb g = 3 \<and> blas_ldc g = 2)"
proof -
  have a: "GetShape (example_tensor [2, 3] Float32 ''CPU:0'' 0) = [2, 3]"
    and b: "GetShape (example_tensor [3, 5] Float32 ''CPU:0'' 1) = [3, 5]"
    and d: "ByteSize (GetDtype (example_tensor [2, 3] Float32 ''CPU:0'' 0)) = Inr 4"
    by (simp_all add: example_tensor_def)
  have st: "backend_log example_state = []" "length (heap example_state) = 2"
    by (simp_all add: example_state_def)
  from MatmulCPU_gemm_call [OF a b d, of example_extern example_state] a b d show ?thesis
    by (simp add: st)
qed

text \<open>
  C8. No check compares the dtypes or the devices of the operands. For operands of rank 2
  with agreeing inner dimensions, the call returns the same result tensor whatever dtype and
  device \<open>B\<close> carries, equal to those of \<open>A\<close> or not: the buffer of \<open>C\<close> is allocated, one
  call of the compute backend is made, and no error is raised.
\<close>

theorem MatmulCPU_no_dtype_device_check:
  assumes "GetShape A = [m, k]" and "GetShape B = [k, n]" and "ByteSize (GetDtype A) = Inr bs"
  shows "\<exists>C. \<forall>d dev. \<exists>s'.
           MatmulCPU ext A (B\<lparr>GetDtype := d, GetDevice := dev\<rparr>) s = (Inr C, s') \<and>
           GetDataPtr C = length (heap s) \<and> length (heap s) < length (heap s') \<and>
           length (backend_log s') = Suc (length (backend_log s))"
proof -
  let ?C = "\<lparr>GetShape = [m, n], GetDtype = GetDtype A, GetDevice = GetDevice A,
             GetDataPtr = length (heap s), IsContiguous = True\<rparr>"
  have "\<exists>s'. MatmulCPU ext A (B\<lparr>GetDtype := d, GetDevice := dev\<rparr>) s = (Inr ?C, s') \<and>
              GetDataPtr ?C = length (heap s) \<and> length (heap s) < length (heap s') \<and>
              length (backend_log s') = Suc (length (backend_log s))" for d dev
  proof -
    have b: "GetShape (B\<lparr>GetDtype := d, GetDevice := dev\<rparr>) = [k, n]"
      using assms(2) by simp
    show ?thesis
      unfolding MatmulCPU_ok [OF assms(1) b assms(3)]
      by (simp add: cblas_sgemm_def Let_def)
  qed
  then show ?thesis by blast
qed

theorem MatmulCPU_no_dtype_device_check_witness:
  "GetShape (example_tensor [2, 3] Float32 ''CPU:0'' 0) = [2, 3] \<and>
   GetShape (example_tensor [3, 5] Float32 ''CPU:0'' 1) = [3, 5] \<and>
   ByteSize (GetDtype (example_tensor [2, 3] Float32 ''CPU:0'' 0)) = Inr 4 \<and>
   (\<exists>C s'. MatmulCPU example_extern (example_tensor [2, 3] Float32 ''CPU:0'' 0)
                     (example_tensor [3, 5] Int64 ''CUDA:0'' 1) example_state = (Inr C, s') \<and>
           GetDataPtr C = 2 \<and> 2 < length (heap s') \<and> length (backend_log s') = 1)"
proof -
  have a: "GetShape (example_tensor [2, 3] Float32 ''CPU:0'' 0) = [2, 3]"
    and b: "GetShape (example_tensor [3, 5] Float32 ''CPU:0'' 1) = [3, 5]"
    and d: "ByteSize (GetDtype (example_tensor [2, 3] Float32 ''CPU:0'' 0)) = Inr 4"
    by (simp_all add: example_tensor_def)
  have st: "length (heap example_state) = 2" "length (backend_log example_state) = 0"
    by (simp_all add: example_state_def)
  from MatmulCPU_no_dtype_device_check [OF a b d, of example_extern example_state]
  obtain C where "\<forall>d dev. \<exists>s'.
      MatmulCPU example_extern (example_tensor [2, 3] Float32 ''CPU:0'' 0)
        ((example_tensor [3, 5] Float32 ''CPU:0'' 1)\<lparr>GetDtype := d, GetDevice := dev\<rparr>) example_state = (Inr C, s') \<and>
      GetDataPtr C = length (heap example_state) \<and> length (heap example_state) < length (heap s') \<and>
      length (backend_log s') = Suc (length (backend_log example_state))"
    by blast
  then have "\<exists>s'.
      MatmulCPU example_extern (example_tensor [2, 3] Float32 ''CPU:0'' 0)
        ((example_tensor [3, 5] Float32 ''CPU:0'' 1)\<lparr>GetDtype := Int64, GetDevice := ''CUDA:0''\<rparr>) example_state = (Inr C, s') \<and>
      GetDataPtr C = length (heap example_state) \<and> length (heap example_state) < length (heap s') \<and>
      length (backend_log s') = Suc (length (backend_log example_state))"
    by blast
  then have "\<exists>s'. MatmulCPU example_extern (example_tensor [2, 3] Float32 ''CPU:0'' 0)
                     (example_tensor [3, 5] Int64 ''CUDA:0'' 1) example_state = (Inr C, s') \<and>
           GetDataPtr C = 2 \<and> 2 < length (heap s') \<and> length (backend_log s') = 1"
    by (simp add: example_tensor_def st)
  with a b d show ?thesis by blast
qed

lemma MatmulCPU_overrun:
  assumes "GetShape A = [m, k]" and "GetShape B = [k, n]" and "ByteSize (GetDtype A) = Inr bs"
    and "nat bs * (m * n) < 4 * (m * n)"
  shows "WritePastEnd (length (heap s)) (4 * (m * n) - nat bs * (m * n))
           \<in> set (faults (snd (MatmulCPU ext A B s)))"
  unfolding MatmulCPU_ok [OF assms(1,2,3)]
  using assms(4)
  by (simp add: cblas_sgemm_def Let_def matrix_extent_dense check_write_def nth_append)

text \<open>
  C9. The claim is that the call writes nothing but the buffer it allocated for \<open>C\<close>. On
  operands of dtype \<open>UInt8\<close> with the shapes \<open>(2, 3)\<close> and \<open>(3, 5)\<close> the call returns the
  result tensor, whose buffer has the 10 bytes that ten one-byte elements take, and it has
  handed that buffer to the single-precision routine as a 2 by 5 matrix of \<^verbatim>\<open>float\<close>: the
  routine stores 40 bytes, 30 of them past the end of the buffer of \<open>C\<close>, in memory that the
  call did not allocate.
\<close>

theorem MatmulCPU_writes_past_result_buffer:
  "fst (MatmulCPU example_extern (example_tensor [2, 3] UInt8 ''CPU:0'' 0)
          (example_tensor [3, 5] UInt8 ''CPU:0'' 1) example_state) =
     Inr (example_tensor [2, 5] UInt8 ''CPU:0'' 2) \<and>
   length (bytes (heap (snd (MatmulCPU example_extern (example_tensor [2, 3] UInt8 ''CPU:0'' 0)
                               (example_tensor [3, 5] UInt8 ''CPU:0'' 1) example_state)) ! 2)) = 10 \<and>
   faults (snd (MatmulCPU example_extern (example_tensor [2, 3] UInt8 ''CPU:0'' 0)
                  (example_tensor [3, 5] UInt8 ''CPU:0'' 1) example_state)) =
     [WritePastEnd 2 30]"
proof -
  have a: "GetShape (example_tensor [2, 3] UInt8 ''CPU:0'' 0) = [2, 3]"
    and b: "GetShape (example_tensor [3, 5] UInt8 ''CPU:0'' 1) = [3, 5]"
    and d: "ByteSize (GetDtype (example_tensor [2, 3] UInt8 ''CPU:0'' 0)) = Inr 1"
    by (simp_all add: example_tensor_def)
  show ?thesis
    unfolding MatmulCPU_ok [OF a b d]
    by (simp add: example_tensor_def example_state_def cblas_sgemm_def Let_def
                  matrix_extent_dense check_read_def check_write_def length_float_bytes)
qed



end
